theory Spec2Isabelle
  imports Main "HOL-Library.AList"
begin

section \<open>The embedding\<close>

text \<open>
  The multi-wallet manager (class \<open>MultiWalletManager\<close>) and the token registry of
  \<open>WalletPay\<close> (\<open>src/lib/wallet-pay.js\<close>) are embedded as functions on explicit state.
  A method that throws (or whose promise rejects) returns the error together with
  the state as the throw left it, so a mutation made before a throw stays visible.
  Every call is taken as one atomic step: the interleaving of several pending
  \<open>async\<close> calls is not part of the embedding.
\<close>

section \<open>JavaScript values\<close>

text \<open>
  Data that travels in requests (parameters, event names, results) is \<open>jsdata\<close>.
  Numbers are left out: they are IEEE doubles in the source.
\<close>

datatype jsdata =
    DUndefined
  | DNull
  | DBool bool
  | DStr string
  | DArr "jsdata list"
  | DObj "(string \<times> jsdata) list"

text \<open>\<open>!x\<close> is false exactly for the truthy values.\<close>

fun truthy :: "jsdata \<Rightarrow> bool" where
  "truthy DUndefined = False"
| "truthy DNull = False"
| "truthy (DBool b) = b"
| "truthy (DStr s) = (s \<noteq> [])"
| "truthy (DArr xs) = True"
| "truthy (DObj ps) = True"

fun join :: "string list \<Rightarrow> string" where
  "join [] = []"
| "join [s] = s"
| "join (s # t # ts) = s @ '','' @ join (t # ts)"

text \<open>
  The string a template literal \<open>`${x}`\<close> inserts for \<open>x\<close>, or \<open>None\<close> where the
  conversion throws a \<open>TypeError\<close>. An array is joined with commas (\<open>null\<close> and
  \<open>undefined\<close> elements give the empty string, the others are converted in turn).
  An object \<open>DObj ps\<close> has the own members \<open>ps\<close> and inherits from
  \<open>Object.prototype\<close>: without an own member \<open>toString\<close> it is \<open>[object Object]\<close>;
  with one the conversion throws, since no value of \<open>jsdata\<close> is a function and the
  inherited \<open>valueOf\<close> gives the object back.
\<close>

fun toString :: "jsdata \<Rightarrow> string option" where
  "toString DUndefined = Some ''undefined''"
| "toString DNull = Some ''null''"
| "toString (DBool b) = Some (if b then ''true'' else ''false'')"
| "toString (DStr s) = Some s"
| "toString (DArr xs) =
     map_option join
       (those (map (\<lambda>x. if x = DUndefined then Some [] else if x = DNull then Some []
                        else toString x) xs))"
| "toString (DObj ps) =
     (case map_of ps ''toString'' of None \<Rightarrow> Some ''[object Object]'' | Some v \<Rightarrow> None)"

text \<open>
  The argument list of a call \<open>f(...x)\<close>: an array spreads into its elements, a string
  into its characters; any other value of \<open>jsdata\<close> is not iterable and the spread
  raises a \<open>TypeError\<close> (\<open>None\<close>).
\<close>

fun spread :: "jsdata \<Rightarrow> jsdata list option" where
  "spread (DArr xs) = Some xs"
| "spread (DStr s) = Some (map (\<lambda>c. DStr [c]) s)"
| "spread _ = None"

text \<open>A property name made from an optional string: \<open>undefined\<close> reads as a key \<open>undefined\<close>.\<close>

fun keyOf :: "string option \<Rightarrow> string" where
  "keyOf None = ''undefined''"
| "keyOf (Some s) = s"

fun present :: "string option \<Rightarrow> bool" where
  "present None = False"
| "present (Some s) = (s \<noteq> [])"

subsection \<open>The object graph of a wallet facade\<close>

text \<open>
  The dispatcher walks \<open>wallet[namespace][resource][method]\<close> over whatever object the
  wallet loader built. A value of that graph is
  \<^item> \<open>Falsy\<close>: a missing member (\<open>undefined\<close>), \<open>null\<close> or another falsy value;
  \<^item> \<open>Plain ps\<close>: a truthy value that cannot be called, with the members \<open>ps\<close> it
    exposes (own and inherited);
  \<^item> \<open>Func f ps\<close>: the function \<open>f\<close>, with its members;
  \<^item> \<open>AssetList as ps\<close>: the asset registry \<open>wallet.pay\<close>.
  A member that is not listed reads as \<open>undefined\<close>. The dispatcher reads members
  of truthy values only; on a falsy value the read gives \<open>Falsy\<close> and the next step
  (a call, a truthiness test) fails as it does in the source.
\<close>

type_synonym fid = nat

text \<open>
  Modelled from the spec: the constructor \<open>AssetList\<close>, for the class of
  \<open>src/lib/asset-list.js\<close>, which \<open>wallet.js\<close> requires and the sources do not
  contain. The spec calls it the Asset Registry, an ordered mapping from namespace
  key to Payment Asset with unique keys; \<open>wallet.js\<close> reads an asset as
  \<open>this.pay[key]\<close> and visits all of them with \<open>this.pay.each\<close>. \<open>as\<close> are the assets
  in registration order, \<open>ps\<close> the registry's other members.
\<close>

datatype jsval =
    Falsy
  | Plain "(string \<times> jsval) list"
  | Func fid "(string \<times> jsval) list"
  | AssetList "(string \<times> jsval) list" "(string \<times> jsval) list"

definition lookup :: "(string \<times> jsval) list \<Rightarrow> string \<Rightarrow> jsval" where
  "lookup ps k = (case map_of ps k of None \<Rightarrow> Falsy | Some v \<Rightarrow> v)"

fun get_prop :: "jsval \<Rightarrow> string \<Rightarrow> jsval" where
  "get_prop Falsy k = Falsy"
| "get_prop (Plain ps) k = lookup ps k"
| "get_prop (Func f ps) k = lookup ps k"
| "get_prop (AssetList as ps) k = (case map_of as k of None \<Rightarrow> lookup ps k | Some v \<Rightarrow> v)"

fun is_truthy :: "jsval \<Rightarrow> bool" where
  "is_truthy Falsy = False"
| "is_truthy _ = True"

fun callable :: "jsval \<Rightarrow> fid option" where
  "callable (Func f ps) = Some f"
| "callable _ = None"

section \<open>Errors, requests, handlers\<close>

text \<open>
  \<open>Error m\<close> is \<open>new Error(m)\<close> with the message of the source; \<open>TypeError\<close> is raised by
  the runtime (a call of something that is not a function, a member read on
  \<open>undefined\<close> or \<open>null\<close>, a failed strict-mode \<open>delete\<close>). A failure of an external
  collaborator is whatever error it gives.
\<close>

datatype error = Error string | TypeError

text \<open>
  A dispatch request \<open>{ name, namespace, resource, method, params, notify }\<close>.
  \<open>req_notify\<close> names the caller's notification channel, \<open>None\<close> when the request
  carries no \<open>notify\<close> function.
\<close>

record request =
  req_name :: string
  req_namespace :: string
  req_resource :: "string option"
  req_method :: "string option"
  req_params :: jsdata
  req_notify :: "nat option"

text \<open>
  The two closures the manager attaches to emitters. Both capture the request (of
  which they use \<open>notify\<close>) and the event key:
  \<open>EventHandler\<close> is \<open>eventHandler\<close> of \<open>_subscribe\<close>,
  \<open>BootstrapHandler\<close> the arrow function of \<open>_subBootstrapEvents\<close>.
\<close>

datatype handler =
    EventHandler "nat option" string
  | BootstrapHandler "nat option" string

text \<open>
  The emitter a handler is attached to: the wallet facade itself, or
  \<open>wallet[namespace][resource]\<close>. The wallet is named by its \<open>walletName\<close>.
\<close>

datatype emitter =
    WalletEmitter string
  | ResourceEmitter string string string

text \<open>
  Calls the manager makes on objects it does not own are logged, in order:
  \<open>emitter.on(event, handler)\<close>, \<open>emitter.off(event, handler)\<close> and the call of a
  facade function with its arguments.
\<close>

datatype effect =
    On emitter jsdata handler
  | Off emitter jsdata handler
  | Invoke fid "jsdata list"

section \<open>The manager's state\<close>

record wallet_export =
  export_name :: string
  export_body :: nat

text \<open>
  A wallet facade as the loader returns it: its \<open>walletName\<close>, what its
  \<open>exportWallet()\<close> settles with, and its members for the dispatcher.
\<close>

record wallet =
  walletName :: string
  exportWallet :: "error + wallet_export"
  facade :: jsval

text \<open>
  The durable store is a key-value map. The manager writes the wallet-name index
  under \<open>wallets\<close> and one export under \<open>wallet-<name>\<close>. An entry of the index that
  \<open>delete\<close> removed is \<open>None\<close> (the store gives it back as \<open>null\<close>). \<open>get\<close> and
  \<open>put\<close> are taken to succeed. A value of the other kind under a key does not
  arise: the manager is the only writer, and no key \<open>wallet-<name>\<close> is \<open>wallets\<close>.

  The manager's fields are \<open>_store\<close>, \<open>_store_path\<close>, \<open>_wallets\<close> and \<open>_subs\<close>; both
  maps keep insertion order. \<open>trace\<close> is the log of the calls made on facades and
  emitters.
\<close>

datatype stored =
    WalletList "string option list"
  | WalletExport wallet_export

record manager =
  store :: "string \<rightharpoonup> stored"
  store_path :: string
  wallets :: "(string \<times> wallet) list"
  subs :: "(string \<times> handler) list"
  trace :: "effect list"

definition MAX_SUB_SIZE :: nat where
  "MAX_SUB_SIZE = 10000"

section \<open>The subscription multiplexer\<close>

text \<open>
  \<open>_getEventName\<close>: the first element of the parameter array is the event name.
  \<open>shift\<close> also removes it from the caller's request; the manager does not read the
  parameters of that request again, so the shortened array is not carried along.
  (Isabelle names cannot start with an underscore: the private methods drop it.)
\<close>

definition getEventName :: "request \<Rightarrow> error + jsdata" where
  "getEventName req =
     (case req_params req of
        DArr xs \<Rightarrow>
          (let eventName = (case xs of [] \<Rightarrow> DUndefined | x # rest \<Rightarrow> x)
           in if truthy eventName then Inr eventName
              else Inl (Error ''event name is missing''))
      | _ \<Rightarrow> Inl (Error ''req params must be an array''))"

definition getEventHandler :: "string \<Rightarrow> manager \<Rightarrow> error + handler" where
  "getEventHandler k st =
     (case map_of (subs st) k of
        None \<Rightarrow> Inl (Error (''handler does not exist '' @ k))
      | Some h \<Rightarrow> Inr h)"

text \<open>
  The two key templates of \<open>_subscribe\<close> and \<open>_unsubscribe\<close>; \<open>None\<close> when the
  event name cannot be converted to a string and the template throws.
\<close>

definition walletKey :: "request \<Rightarrow> jsdata \<Rightarrow> string option" where
  "walletKey req eventName =
     (case toString eventName of
        None \<Rightarrow> None
      | Some s \<Rightarrow> Some (req_name req @ '':'' @ s))"

definition resourceKey :: "request \<Rightarrow> jsdata \<Rightarrow> string option" where
  "resourceKey req eventName =
     (case toString eventName of
        None \<Rightarrow> None
      | Some s \<Rightarrow>
          Some (req_name req @ '':'' @ req_namespace req @ ''-'' @ keyOf (req_resource req)
                  @ '':'' @ s))"

text \<open>The emitter and its member \<open>on\<close> or \<open>off\<close> for the scope \<open>opts\<close>.\<close>

definition resourceOf :: "request \<Rightarrow> wallet \<Rightarrow> jsval" where
  "resourceOf req w =
     get_prop (get_prop (facade w) (req_namespace req)) (keyOf (req_resource req))"

definition resourceEmitter :: "request \<Rightarrow> wallet \<Rightarrow> emitter" where
  "resourceEmitter req w =
     ResourceEmitter (walletName w) (req_namespace req) (keyOf (req_resource req))"

text \<open>
  \<open>_subscribe\<close>. The map \<open>_subs\<close> keeps insertion order and one entry per key, as
  \<open>AList.update\<close> does; its \<open>size\<close> is the length of the list. A member \<open>on\<close> that
  is a function is taken to be the emitter's \<open>on\<close>: it registers the handler and
  returns. Calling a member that is not a function raises \<open>TypeError\<close>, and so does
  a key template whose event name has no string form; the template comes first.
\<close>

definition subscribe ::
  "request \<Rightarrow> wallet \<Rightarrow> string \<Rightarrow> manager \<Rightarrow> (error + string) \<times> manager" where
  "subscribe req w opts st =
     (case getEventName req of
        Inl e \<Rightarrow> (Inl e, st)
      | Inr eventName \<Rightarrow>
          if length (subs st) = MAX_SUB_SIZE
          then (Inl (Error ''memory leak: too many subscriptions''), st)
          else if opts = ''wallet'' then
            (case walletKey req eventName of
               None \<Rightarrow> (Inl TypeError, st)
             | Some eventKey \<Rightarrow>
                 (let eventHandler = EventHandler (req_notify req) eventKey
                  in case callable (get_prop (facade w) ''on'') of
                       None \<Rightarrow> (Inl TypeError, st)
                     | Some f \<Rightarrow>
                         (Inr eventKey,
                          st\<lparr>subs := AList.update eventKey eventHandler (subs st),
                             trace := trace st
                               @ [On (WalletEmitter (walletName w)) eventName eventHandler]\<rparr>)))
          else if opts = ''resource'' then
            (case resourceKey req eventName of
               None \<Rightarrow> (Inl TypeError, st)
             | Some eventKey \<Rightarrow>
                 (let eventHandler = EventHandler (req_notify req) eventKey
                  in case callable (get_prop (resourceOf req w) ''on'') of
                       None \<Rightarrow> (Inl TypeError, st)
                     | Some f \<Rightarrow>
                         (Inr eventKey,
                          st\<lparr>subs := AList.update eventKey eventHandler (subs st),
                             trace := trace st
                               @ [On (resourceEmitter req w) eventName eventHandler]\<rparr>)))
          else (Inl (Error ''invalid subscriptions opts''), st))"

text \<open>
  \<open>_unsubscribe\<close>. The argument \<open>this._getEventHandler(eventKey)\<close> is evaluated
  before \<open>off\<close> is called, so a missing handler is reported before a missing \<open>off\<close>.
  In the resource scope the emitter is read first: a missing resource raises
  \<open>TypeError\<close> before the handler is looked up.
\<close>

definition unsubscribe ::
  "request \<Rightarrow> wallet \<Rightarrow> string \<Rightarrow> manager \<Rightarrow> (error + string) \<times> manager" where
  "unsubscribe req w opts st =
     (case getEventName req of
        Inl e \<Rightarrow> (Inl e, st)
      | Inr eventName \<Rightarrow>
          if opts = ''wallet'' then
            (case walletKey req eventName of
               None \<Rightarrow> (Inl TypeError, st)
             | Some eventKey \<Rightarrow>
                 (case getEventHandler eventKey st of
                    Inl e \<Rightarrow> (Inl e, st)
                  | Inr h \<Rightarrow>
                      (case callable (get_prop (facade w) ''off'') of
                         None \<Rightarrow> (Inl TypeError, st)
                       | Some f \<Rightarrow>
                           (Inr eventKey,
                            st\<lparr>subs := AList.delete eventKey (subs st),
                               trace := trace st
                                 @ [Off (WalletEmitter (walletName w)) eventName h]\<rparr>))))
          else if opts = ''resource'' then
            (case resourceKey req eventName of
               None \<Rightarrow> (Inl TypeError, st)
             | Some eventKey \<Rightarrow>
                 if is_truthy (resourceOf req w) then
                   (case getEventHandler eventKey st of
                      Inl e \<Rightarrow> (Inl e, st)
                    | Inr h \<Rightarrow>
                        (case callable (get_prop (resourceOf req w) ''off'') of
                           None \<Rightarrow> (Inl TypeError, st)
                         | Some f \<Rightarrow>
                             (Inr eventKey,
                              st\<lparr>subs := AList.delete eventKey (subs st),
                                 trace := trace st
                                   @ [Off (resourceEmitter req w) eventName h]\<rparr>)))
                 else (Inl TypeError, st))
          else (Inl (Error ''invalid unsub opts''), st))"

text \<open>
  Running a handler on the arguments of an emitted event. \<open>notify c k args\<close> is what
  the channel \<open>c\<close> does with \<open>req.notify(k, args)\<close>: it returns (\<open>None\<close>) or throws.
  \<open>eventHandler\<close> wraps the call in \<open>try { ... } catch { }\<close>; the bootstrap handler
  does not. A request without \<open>notify\<close> makes the call itself a \<open>TypeError\<close>.
\<close>

definition callNotify ::
  "(nat \<Rightarrow> string \<Rightarrow> jsdata list \<Rightarrow> error option) \<Rightarrow> nat option \<Rightarrow> string \<Rightarrow> jsdata list
     \<Rightarrow> error option" where
  "callNotify notify c k args = (case c of None \<Rightarrow> Some TypeError | Some n \<Rightarrow> notify n k args)"

fun runHandler ::
  "(nat \<Rightarrow> string \<Rightarrow> jsdata list \<Rightarrow> error option) \<Rightarrow> handler \<Rightarrow> jsdata list \<Rightarrow> error option" where
  "runHandler notify (EventHandler c eventKey) args =
     (case callNotify notify c eventKey args of None \<Rightarrow> None | Some e \<Rightarrow> None)"
| "runHandler notify (BootstrapHandler c eventKey) args = callNotify notify c eventKey args"

text \<open>
  \<open>_subBootstrapEvents\<close>. \<open>payEvents\<close> is \<open>this._walletLoader.bootstrapEvents.pay\<close>,
  the event names the loader declares. For every asset \<open>k\<close> of \<open>wallet.pay\<close> and every
  event a handler is attached with \<open>asset.on\<close>; \<open>_subs\<close> is not written.
  \<open>attachEvents\<close> is the callback \<open>(asset, k) => payEvents.forEach(...)\<close>. A facade
  whose \<open>pay\<close> is not the registry has no \<open>each\<close> to call.
\<close>

fun attachEvents ::
  "string \<Rightarrow> nat option \<Rightarrow> string \<Rightarrow> jsval \<Rightarrow> string list \<Rightarrow> effect list
     \<Rightarrow> error option \<times> effect list" where
  "attachEvents wn c k asset [] tr = (None, tr)"
| "attachEvents wn c k asset (ev # evs) tr =
     (let eventKey = wn @ '':pay-'' @ k @ '':'' @ ev
      in case callable (get_prop asset ''on'') of
           None \<Rightarrow> (Some TypeError, tr)
         | Some f \<Rightarrow>
             attachEvents wn c k asset evs
               (tr @ [On (ResourceEmitter wn ''pay'' k) (DStr ev) (BootstrapHandler c eventKey)]))"

text \<open>
  Modelled from the spec: \<open>each\<close> of the missing \<open>AssetList\<close>. It visits every asset
  in registry order and calls the callback with the asset and its key; a callback
  that throws ends the visit with that error.
\<close>

fun eachAsset ::
  "string \<Rightarrow> nat option \<Rightarrow> string list \<Rightarrow> (string \<times> jsval) list \<Rightarrow> effect list
     \<Rightarrow> error option \<times> effect list" where
  "eachAsset wn c payEvents [] tr = (None, tr)"
| "eachAsset wn c payEvents ((k, asset) # rest) tr =
     (case attachEvents wn c k asset payEvents tr of
        (None, tr1) \<Rightarrow> eachAsset wn c payEvents rest tr1
      | (Some e, tr1) \<Rightarrow> (Some e, tr1))"

definition subBootstrapEvents ::
  "string list \<Rightarrow> wallet \<Rightarrow> request \<Rightarrow> manager \<Rightarrow> error option \<times> manager" where
  "subBootstrapEvents payEvents w req st =
     (case get_prop (facade w) ''pay'' of
        AssetList as ps \<Rightarrow>
          (case eachAsset (walletName w) (req_notify req) payEvents as (trace st) of
             (r, tr) \<Rightarrow> (r, st\<lparr>trace := tr\<rparr>))
      | _ \<Rightarrow> (Some TypeError, st))"

section \<open>Wallet lifecycle\<close>

text \<open>
  What the manager is constructed with: the injected wallet loader, the event names
  it declares under \<open>bootstrapEvents.pay\<close>, and what a facade function does when it
  is called with an argument list (the value its promise resolves with, or its
  failure).
\<close>

record create_opts =
  opt_name :: "string option"
  opt_store_path :: "string option"
  opt_req :: "request option"

datatype loader_arg =
    FromOpts create_opts
  | FromExport "wallet_export option"

record env =
  walletLoader :: "loader_arg \<Rightarrow> error + wallet"
  payEvents :: "string list"
  invoke :: "fid \<Rightarrow> jsdata list \<Rightarrow> error + jsdata"

text \<open>
  The lifecycle methods take the request as first parameter \<open>req\<close> and do not read
  it; it is left out, except for \<open>loadWallet\<close>, where the position of the arguments
  matters.
\<close>

definition getWalletList :: "manager \<Rightarrow> string option list" where
  "getWalletList st = (case store st ''wallets'' of Some (WalletList l) \<Rightarrow> l | _ \<Rightarrow> [])"

definition updateWalletList :: "string option list \<Rightarrow> manager \<Rightarrow> manager" where
  "updateWalletList d st = st\<lparr>store := (store st)(''wallets'' \<mapsto> WalletList d)\<rparr>"

text \<open>\<open>getWallet(_, name)\<close> reads \<open>`wallet-${name}`\<close>; a missing \<open>name\<close> reads \<open>wallet-undefined\<close>.\<close>

definition getWallet :: "string option \<Rightarrow> manager \<Rightarrow> wallet_export option" where
  "getWallet n st =
     (case store st (''wallet-'' @ keyOf n) of Some (WalletExport x) \<Rightarrow> Some x | _ \<Rightarrow> None)"

definition addWallet :: "wallet_export \<Rightarrow> manager \<Rightarrow> error option \<times> manager" where
  "addWallet walletExport st =
     (let walletList = getWalletList st
      in if Some (export_name walletExport) \<in> set walletList
         then (Some (Error ''wallet already exists''), st)
         else (None,
               updateWalletList (walletList @ [Some (export_name walletExport)])
                 (st\<lparr>store := (store st)(''wallet-'' @ export_name walletExport
                                             \<mapsto> WalletExport walletExport)\<rparr>)))"

text \<open>
  \<open>delete walletList[name]\<close> on the array of names, in strict mode (a class body).
  The property \<open>name\<close> of an array is an element only when \<open>name\<close> is the decimal
  form of an index: then the element is removed and leaves an empty slot. \<open>length\<close>
  cannot be deleted (\<open>TypeError\<close>). Any other property does not exist and the array
  stays as it is.
\<close>

definition isDigit :: "char \<Rightarrow> bool" where
  "isDigit c = (48 \<le> (of_char c :: nat) \<and> (of_char c :: nat) \<le> 57)"

definition arrayIndex :: "string \<Rightarrow> nat option" where
  "arrayIndex s =
     (if s = [] then None
      else if list_all isDigit s \<and> (s = ''0'' \<or> hd s \<noteq> CHR ''0'')
      then Some (foldl (\<lambda>n c. 10 * n + (of_char c - 48)) 0 s)
      else None)"

definition deleteProp :: "string option list \<Rightarrow> string \<Rightarrow> error + string option list" where
  "deleteProp l n =
     (if n = ''length'' then Inl TypeError
      else case arrayIndex n of
             None \<Rightarrow> Inr l
           | Some i \<Rightarrow> if i < length l then Inr (l[i := None]) else Inr l)"

definition removeWallet :: "string \<Rightarrow> manager \<Rightarrow> error option \<times> manager" where
  "removeWallet n st =
     (case deleteProp (getWalletList st) n of
        Inl e \<Rightarrow> (Some e, st)
      | Inr walletList \<Rightarrow> (None, updateWalletList walletList st))"

text \<open>
  \<open>_load(config)\<close>: \<open>config.name\<close> on a missing record is a \<open>TypeError\<close>. The loader
  gets whatever the store holds under the name, also nothing.
\<close>

definition load :: "env \<Rightarrow> wallet_export option \<Rightarrow> manager \<Rightarrow> (error + wallet) \<times> manager" where
  "load E config st =
     (case config of
        None \<Rightarrow> (Inl TypeError, st)
      | Some c \<Rightarrow>
          (let walletExp = getWallet (Some (export_name c)) st
           in case walletLoader E (FromExport walletExp) of
                Inl e \<Rightarrow> (Inl e, st)
              | Inr w \<Rightarrow> (Inr w, st\<lparr>wallets := AList.update (export_name c) w (wallets st)\<rparr>)))"

text \<open>
  The callbacks of \<open>walletList.map\<close> in \<open>_setupWallet\<close>, one per entry of the index.
  Each reads \<open>this.getWallet({}.walletName)\<close>, that is \<open>getWallet(undefined)\<close>, and
  loads what it got. They are run in index order; \<open>Promise.all\<close> rejects with the
  first failure while the other callbacks still run.
\<close>

fun loadEach :: "env \<Rightarrow> string option list \<Rightarrow> manager \<Rightarrow> error option \<times> manager" where
  "loadEach E [] st = (None, st)"
| "loadEach E (n # rest) st =
     (case load E (getWallet None st) st of
        (Inl e, st1) \<Rightarrow> (Some e, snd (loadEach E rest st1))
      | (Inr w, st1) \<Rightarrow> loadEach E rest st1)"

record setup_opts =
  setup_all :: bool
  setup_name :: "string option"

datatype setup_result =
    Names "string option list"
  | Facades "wallet list"

text \<open>\<open>_setupWallet(opts)\<close>; \<open>None\<close> is a call without argument.\<close>

definition setupWallet ::
  "env \<Rightarrow> setup_opts option \<Rightarrow> manager \<Rightarrow> (error + setup_result) \<times> manager" where
  "setupWallet E opts st =
     (let walletList = getWalletList st
      in case opts of
           None \<Rightarrow> (Inl TypeError, st)
         | Some opt \<Rightarrow>
             if setup_all opt then
               (case loadEach E walletList st of
                  (Some e, st1) \<Rightarrow> (Inl e, st1)
                | (None, st1) \<Rightarrow> (Inr (Names walletList), st1))
             else
               (case getWallet (setup_name opt) st of
                  None \<Rightarrow> (Inl (Error ''cant find wallet data''), st)
                | Some config \<Rightarrow>
                    (case load E (Some config) st of
                       (Inl e, st1) \<Rightarrow> (Inl e, st1)
                     | (Inr w, st1) \<Rightarrow> (Inr (Facades [w]), st1))))"

text \<open>
  \<open>loadWallet(opts, ...param)\<close> hands \<open>param\<close>, not \<open>opts\<close>, to \<open>_setupWallet\<close> and
  maps \<open>w.walletName\<close> over the result. On the names of the index that member is
  \<open>undefined\<close> (\<open>None\<close> in the result); on \<open>null\<close> reading it is a \<open>TypeError\<close>.
\<close>

definition loadWallet ::
  "env \<Rightarrow> setup_opts \<Rightarrow> setup_opts list \<Rightarrow> manager
     \<Rightarrow> (error + string option list) \<times> manager" where
  "loadWallet E opts param st =
     (case setupWallet E (case param of [] \<Rightarrow> None | p # ps \<Rightarrow> Some p) st of
        (Inl e, st1) \<Rightarrow> (Inl e, st1)
      | (Inr (Facades ws), st1) \<Rightarrow> (Inr (map (\<lambda>w. Some (walletName w)) ws), st1)
      | (Inr (Names l), st1) \<Rightarrow>
          if None \<in> set l then (Inl TypeError, st1) else (Inr (map (\<lambda>w. None) l), st1))"

text \<open>\<open>x || d\<close> on an optional string: the default replaces a missing or empty one.\<close>

fun orDefault :: "string option \<Rightarrow> string \<Rightarrow> string" where
  "orDefault None d = d"
| "orDefault (Some s) d = (if s = [] then d else s)"

text \<open>
  \<open>createWallet(req, opts)\<close>. The facade is put into \<open>_wallets\<close> under its own
  \<open>walletName\<close> before \<open>addWallet\<close> looks at the index.
\<close>

definition createWallet ::
  "env \<Rightarrow> create_opts \<Rightarrow> manager \<Rightarrow> (error + wallet_export) \<times> manager" where
  "createWallet E opts0 st =
     (let opts = opts0\<lparr>opt_name := Some (orDefault (opt_name opts0) ''default''),
                       opt_store_path := Some (orDefault (opt_store_path opts0) (store_path st))\<rparr>
      in case map_of (wallets st) (keyOf (opt_name opts)) of
           Some w0 \<Rightarrow> (Inl (Error ''wallet already exists with name''), st)
         | None \<Rightarrow>
             (case walletLoader E (FromOpts opts) of
                Inl e \<Rightarrow> (Inl e, st)
              | Inr w \<Rightarrow>
                  (case exportWallet w of
                     Inl e \<Rightarrow> (Inl e, st)
                   | Inr walletExport \<Rightarrow>
                       (case addWallet walletExport
                               (st\<lparr>wallets := AList.update (walletName w) w (wallets st)\<rparr>) of
                          (Some e, st2) \<Rightarrow> (Inl e, st2)
                        | (None, st2) \<Rightarrow>
                            (case opt_req opts of
                               None \<Rightarrow> (Inr walletExport, st2)
                             | Some r \<Rightarrow>
                                 (case subBootstrapEvents (payEvents E) w r st2 of
                                    (Some e, st3) \<Rightarrow> (Inl e, st3)
                                  | (None, st3) \<Rightarrow> (Inr walletExport, st3)))))))"

section \<open>The dispatcher\<close>

text \<open>
  A call \<open>f(args)\<close> of a facade member: spreading something that is not iterable and
  calling something that is not a function are \<open>TypeError\<close>s; otherwise the call is
  logged and the dispatcher returns what the function gives.
\<close>

definition callFn ::
  "env \<Rightarrow> jsval \<Rightarrow> jsdata list option \<Rightarrow> manager \<Rightarrow> (error + jsdata) \<times> manager" where
  "callFn E fn args st =
     (case args of
        None \<Rightarrow> (Inl TypeError, st)
      | Some a \<Rightarrow>
          (case callable fn of
             None \<Rightarrow> (Inl TypeError, st)
           | Some f \<Rightarrow> (invoke E f a, st\<lparr>trace := trace st @ [Invoke f a]\<rparr>)))"

definition asResult :: "(error + string) \<times> manager \<Rightarrow> (error + jsdata) \<times> manager" where
  "asResult r = (case r of (Inl e, st) \<Rightarrow> (Inl e, st) | (Inr k, st) \<Rightarrow> (Inr (DStr k), st))"

text \<open>\<open>callWallet\<close> from line 200 on, with the facade \<open>w\<close> in hand.\<close>

definition dispatch ::
  "env \<Rightarrow> request \<Rightarrow> wallet \<Rightarrow> manager \<Rightarrow> (error + jsdata) \<times> manager" where
  "dispatch E req w st =
     (let ns = get_prop (facade w) (req_namespace req)
      in if \<not> is_truthy ns then (Inl (Error ''wallet doesnt have this namespace''), st)
         else if req_namespace req = ''on'' then asResult (subscribe req w ''wallet'' st)
         else if req_namespace req = ''off'' then asResult (unsubscribe req w ''wallet'' st)
         else if \<not> present (req_resource req) then callFn E ns (spread (req_params req)) st
         else
           (let res = get_prop ns (keyOf (req_resource req))
            in if \<not> is_truthy res then (Inl (Error ''wallet doesnt have this resource''), st)
               else if req_method req = Some ''on'' then asResult (subscribe req w ''resource'' st)
               else if req_method req = Some ''off'' then asResult (unsubscribe req w ''resource'' st)
               else
                 (let m = get_prop res (keyOf (req_method req))
                  in if \<not> is_truthy m
                     then (Inl (Error ''wallet resource does not have that method name''), st)
                     else (case req_params req of
                             DArr xs \<Rightarrow> callFn E m (Some xs) st
                           | p \<Rightarrow> callFn E m (Some [p]) st))))"

text \<open>
  \<open>callWallet(req)\<close>: a wallet that is not in \<open>_wallets\<close> is set up by name first and
  gets its bootstrap handlers. \<open>_setupWallet({ name })\<close> gives one facade; were the
  result a list of names, its last element would have no \<open>pay\<close>.
\<close>

definition callWallet :: "env \<Rightarrow> request \<Rightarrow> manager \<Rightarrow> (error + jsdata) \<times> manager" where
  "callWallet E req st =
     (case map_of (wallets st) (req_name req) of
        Some w \<Rightarrow> dispatch E req w st
      | None \<Rightarrow>
          (case setupWallet E (Some \<lparr>setup_all = False, setup_name = Some (req_name req)\<rparr>) st of
             (Inl e, st1) \<Rightarrow> (Inl e, st1)
           | (Inr (Names l), st1) \<Rightarrow>
               (if l = [] then (Inl (Error (''Wallet with name '' @ req_name req @ '' not found '')), st1)
                else (Inl TypeError, st1))
           | (Inr (Facades ws), st1) \<Rightarrow>
               (case rev ws of
                  [] \<Rightarrow> (Inl (Error (''Wallet with name '' @ req_name req @ '' not found '')), st1)
                | w # rest \<Rightarrow>
                    (case subBootstrapEvents (payEvents E) w req st1 of
                       (Some e, st2) \<Rightarrow> (Inl e, st2)
                     | (None, st2) \<Rightarrow> dispatch E req w st2))))"

section \<open>The token registry of a payment asset\<close>

text \<open>\<open>WalletPay\<close> keeps its tokens in the map \<open>_tokens\<close>, from token name to token.\<close>

record token =
  token_name :: string
  token_id :: nat

record wallet_pay =
  assetName :: string
  tokens :: "(string \<times> token) list"

definition has :: "(string \<times> token) list \<Rightarrow> string \<Rightarrow> bool" where
  "has m k = (case map_of m k of None \<Rightarrow> False | Some t \<Rightarrow> True)"

definition addToken :: "token \<Rightarrow> wallet_pay \<Rightarrow> error option \<times> wallet_pay" where
  "addToken t a =
     (if \<not> has (tokens a) (token_name t)
      then (Some (Error (''Token already exists '' @ token_name t)), a)
      else (None, a\<lparr>tokens := AList.update (token_name t) t (tokens a)\<rparr>))"

fun loadToken :: "token list \<Rightarrow> wallet_pay \<Rightarrow> error option \<times> wallet_pay" where
  "loadToken [] a = (None, a)"
| "loadToken (t # ts) a =
     (if token_name t = [] then (Some (Error ''token class missing name''), a)
      else loadToken ts (a\<lparr>tokens := AList.update (token_name t) t (tokens a)\<rparr>))"

section \<open>Sequences of subscriptions\<close>

text \<open>
  A run of \<open>_subscribe\<close> calls, one after the other, each on the state the last one
  left; the results are collected in order.
\<close>

fun subscribeAll ::
  "(request \<times> wallet \<times> string) list \<Rightarrow> manager \<Rightarrow> (error + string) list \<times> manager" where
  "subscribeAll [] st = ([], st)"
| "subscribeAll ((req, w, opts) # rest) st =
     (case subscribe req w opts st of
        (r, st1) \<Rightarrow> (case subscribeAll rest st1 of (rs, st2) \<Rightarrow> (r # rs, st2)))"

text \<open>
  What a well-formed subscribe call registers: its key, the handler stored under the
  key, and the call of \<open>on\<close> that attaches the handler. A call is well-formed when
  the request names an event that has a string form, the scope is \<open>wallet\<close> or
  \<open>resource\<close>, and the emitter of that scope has \<open>on\<close>. \<open>None\<close> for any other call.
\<close>

definition registration ::
  "request \<times> wallet \<times> string \<Rightarrow> (string \<times> handler \<times> effect) option" where
  "registration c =
     (case c of (req, w, opts) \<Rightarrow>
        (case getEventName req of
           Inl e \<Rightarrow> None
         | Inr eventName \<Rightarrow>
             if opts = ''wallet'' then
               (case (walletKey req eventName, callable (get_prop (facade w) ''on'')) of
                  (Some k, Some f) \<Rightarrow>
                    Some (k, EventHandler (req_notify req) k,
                          On (WalletEmitter (walletName w)) eventName
                            (EventHandler (req_notify req) k))
                | _ \<Rightarrow> None)
             else if opts = ''resource'' then
               (case (resourceKey req eventName,
                      callable (get_prop (resourceOf req w) ''on'')) of
                  (Some k, Some f) \<Rightarrow>
                    Some (k, EventHandler (req_notify req) k,
                          On (resourceEmitter req w) eventName (EventHandler (req_notify req) k))
                | _ \<Rightarrow> None)
             else None))"

section \<open>Example states\<close>

text \<open>
  A wallet \<open>alice\<close> with one asset \<open>btc\<close>. The asset and the facade are emitters
  (they have \<open>on\<close> and \<open>off\<close>); the asset has the method \<open>getBalance\<close>. The
  member \<open>seed.mnemonic\<close> is a value without methods.
\<close>

definition btcAsset :: jsval where
  "btcAsset = Plain [(''getBalance'', Func 1 []), (''on'', Func 2 []), (''off'', Func 3 [])]"

definition aliceFacade :: jsval where
  "aliceFacade =
     Plain [(''pay'', AssetList [(''btc'', btcAsset)] []),
            (''seed'', Plain [(''mnemonic'', Plain [])]),
            (''on'', Func 4 []), (''off'', Func 5 [])]"

definition aliceExport :: wallet_export where
  "aliceExport = \<lparr>export_name = ''alice'', export_body = 0\<rparr>"

definition aliceWallet :: wallet where
  "aliceWallet = \<lparr>walletName = ''alice'', exportWallet = Inr aliceExport, facade = aliceFacade\<rparr>"

text \<open>A loader that builds that wallet, and facade functions that all resolve with \<open>balance\<close>.\<close>

definition exampleEnv :: env where
  "exampleEnv =
     \<lparr>walletLoader = (\<lambda>a. Inr aliceWallet), payEvents = [''new-tx''],
      invoke = (\<lambda>f args. Inr (DStr ''balance''))\<rparr>"

text \<open>
  \<open>persisted\<close>: the store holds \<open>alice\<close> (index and export) and nothing is in memory,
  as after a restart. \<open>materialized\<close>: the same with the facade in \<open>_wallets\<close>.
\<close>

definition persisted :: manager where
  "persisted =
     \<lparr>store = [''wallets'' \<mapsto> WalletList [Some ''alice''],
               ''wallet-alice'' \<mapsto> WalletExport aliceExport],
      store_path = ''/data'', wallets = [], subs = [], trace = []\<rparr>"

definition materialized :: manager where
  "materialized = persisted\<lparr>wallets := [(''alice'', aliceWallet)]\<rparr>"

text \<open>A notification channel that always throws.\<close>

definition brokenNotify :: "nat \<Rightarrow> string \<Rightarrow> jsdata list \<Rightarrow> error option" where
  "brokenNotify c k args = Some (Error ''channel closed'')"

definition balanceReq :: request where
  "balanceReq =
     \<lparr>req_name = ''alice'', req_namespace = ''pay'', req_resource = Some ''btc'',
      req_method = Some ''getBalance'', req_params = DArr [], req_notify = Some 0\<rparr>"

definition usdt :: "nat \<Rightarrow> token" where
  "usdt i = \<lparr>token_name = ''USDT'', token_id = i\<rparr>"

text \<open>Requests to \<open>alice\<close>; all but the fields named are those of \<open>balanceReq\<close>.\<close>

definition structuredReq :: request where
  "structuredReq = balanceReq\<lparr>req_params := DObj [(''confirmed'', DBool True)]\<rparr>"

definition onMethodReq :: request where
  "onMethodReq = balanceReq\<lparr>req_method := Some ''on'', req_params := DArr [DStr ''new-tx'']\<rparr>"

definition offMethodReq :: request where
  "offMethodReq = balanceReq\<lparr>req_method := Some ''off'', req_params := DArr [DStr ''new-tx'']\<rparr>"

definition ethReq :: request where
  "ethReq = balanceReq\<lparr>req_resource := Some ''eth''\<rparr>"

definition priceReq :: request where
  "priceReq = balanceReq\<lparr>req_method := Some ''getPrice''\<rparr>"

definition mnemonicOnReq :: request where
  "mnemonicOnReq =
     balanceReq\<lparr>req_namespace := ''seed'', req_resource := Some ''mnemonic'',
                req_method := Some ''on'', req_params := DArr [DStr ''new-tx'']\<rparr>"

definition onReq :: request where
  "onReq =
     \<lparr>req_name = ''alice'', req_namespace = ''on'', req_resource = None, req_method = None,
      req_params = DArr [DStr ''new-tx''], req_notify = Some 0\<rparr>"

definition offReq :: request where
  "offReq = onReq\<lparr>req_namespace := ''off''\<rparr>"

text \<open>\<open>subscribed\<close>: another caller (channel 7) already listens to \<open>new-tx\<close> of \<open>alice\<close>.\<close>

definition subscribed :: manager where
  "subscribed = materialized\<lparr>subs := [(''alice:new-tx'', EventHandler (Some 7) ''alice:new-tx'')]\<rparr>"

text \<open>\<open>booted\<close>: \<open>materialized\<close> after the bootstrap subscriptions for \<open>balanceReq\<close>.\<close>

definition booted :: manager where
  "booted =
     materialized\<lparr>trace := [On (ResourceEmitter ''alice'' ''pay'' ''btc'') (DStr ''new-tx'')
                               (BootstrapHandler (Some 0) ''alice:pay-btc:new-tx'')]\<rparr>"

text \<open>
  As many wallet-level subscribe calls as the map holds, each for an event of its
  own (\<open>e\<close>, \<open>ee\<close>, \<open>eee\<close>, ...), and what they register.
\<close>

definition eventReq :: "nat \<Rightarrow> request" where
  "eventReq i = onReq\<lparr>req_params := DArr [DStr (replicate (Suc i) CHR ''e'')]\<rparr>"

definition manyCalls :: "(request \<times> wallet \<times> string) list" where
  "manyCalls = map (\<lambda>i. (eventReq i, aliceWallet, ''wallet'')) [0..<MAX_SUB_SIZE]"

definition manyRegs :: "(string \<times> handler \<times> effect) list" where
  "manyRegs =
     map (\<lambda>i. (''alice:'' @ replicate (Suc i) CHR ''e'',
               EventHandler (Some 0) (''alice:'' @ replicate (Suc i) CHR ''e''),
               On (WalletEmitter ''alice'') (DStr (replicate (Suc i) CHR ''e''))
                 (EventHandler (Some 0) (''alice:'' @ replicate (Suc i) CHR ''e''))))
       [0..<MAX_SUB_SIZE]"

text \<open>A wallet-level subscribe call without an event name.\<close>

definition noEventReq :: request where
  "noEventReq = onReq\<lparr>req_params := DArr []\<rparr>"

section \<open>Properties\<close>

lemmas example_defs =
  btcAsset_def aliceFacade_def aliceExport_def aliceWallet_def exampleEnv_def
  persisted_def materialized_def brokenNotify_def balanceReq_def usdt_def
  structuredReq_def onMethodReq_def offMethodReq_def ethReq_def priceReq_def mnemonicOnReq_def
  onReq_def offReq_def subscribed_def booted_def

subsection \<open>Wallet lifecycle\<close>

text \<open>
  C2. Claim: creating a wallet whose name is already in the persisted index fails
  with AlreadyExists, leaves the index unchanged and leaves the in-memory wallet map
  as it was. The code does not keep the last part. With \<open>alice\<close> in the index and
  not in memory, \<open>createWallet\<close> for \<open>alice\<close> fails with \<open>wallet already exists\<close>
  and the store is unchanged, but the new facade stays in \<open>_wallets\<close>: it was put
  there before \<open>addWallet\<close> read the index.
\<close>

theorem createWallet_existing_name_leaves_facade:
  "createWallet exampleEnv \<lparr>opt_name = Some ''alice'', opt_store_path = None, opt_req = None\<rparr>
     persisted
   = (Inl (Error ''wallet already exists''), persisted\<lparr>wallets := [(''alice'', aliceWallet)]\<rparr>)"
  by (simp add: createWallet_def addWallet_def getWalletList_def persisted_def exampleEnv_def
      aliceExport_def aliceWallet_def)

text \<open>
  The same for every name that is in the index and not in memory: the call fails and
  the facade the loader built is left in \<open>_wallets\<close>.
\<close>

lemma createWallet_name_in_index:
  assumes "map_of (wallets st) n = None" and "n \<noteq> []"
    and "walletLoader E (FromOpts \<lparr>opt_name = Some n,
           opt_store_path = Some (orDefault p (store_path st)), opt_req = q\<rparr>) = Inr w"
    and "exportWallet w = Inr x"
    and "Some (export_name x) \<in> set (getWalletList st)"
  shows "createWallet E \<lparr>opt_name = Some n, opt_store_path = p, opt_req = q\<rparr> st
         = (Inl (Error ''wallet already exists''),
            st\<lparr>wallets := AList.update (walletName w) w (wallets st)\<rparr>)"
  using assms by (simp add: createWallet_def addWallet_def getWalletList_def)

text \<open>
  C3. Claim: \<open>removeWallet(name)\<close> leaves a persisted index that no longer contains
  the name, and does not touch the facade in memory. The code does not remove the
  name: \<open>delete walletList[name]\<close> deletes the property called \<open>alice\<close> of the
  array, which does not exist. The call succeeds and the whole state, index
  included, is what it was. The same holds for every name that is not the decimal
  form of an index (\<open>removeWallet_keeps_index\<close>).
\<close>

theorem removeWallet_keeps_name:
  "removeWallet ''alice'' materialized = (None, materialized)
   \<and> getWalletList materialized = [Some ''alice'']"
proof -
  have "(store materialized)(''wallets'' \<mapsto> WalletList [Some ''alice'']) = store materialized"
    by (rule ext) (simp add: materialized_def persisted_def)
  then show ?thesis
    by (simp add: removeWallet_def getWalletList_def updateWalletList_def deleteProp_def
        arrayIndex_def isDigit_def materialized_def persisted_def)
qed

lemma removeWallet_keeps_index:
  "arrayIndex n = None \<Longrightarrow> n \<noteq> ''length'' \<Longrightarrow>
   getWalletList (snd (removeWallet n st)) = getWalletList st"
  by (simp add: removeWallet_def deleteProp_def getWalletList_def updateWalletList_def)

text \<open>
  C5. Claim: \<open>loadWallet\<close> with \<open>all = true\<close> loads every wallet of the index and
  returns the loaded names; loading one wallet without export record fails with
  NotFound. The second part holds. The first does not: every callback reads
  \<open>getWallet({}.walletName)\<close>, the record \<open>wallet-undefined\<close>, instead of the
  wallet's own record, and \<open>_load\<close> fails on the missing record with a
  \<open>TypeError\<close>. Nothing is loaded. Passing the options as first argument fails
  as well, since \<open>loadWallet\<close> forwards only the arguments after it.
\<close>

theorem loadWallet_all_loads_nothing:
  "loadWallet exampleEnv \<lparr>setup_all = False, setup_name = None\<rparr>
     [\<lparr>setup_all = True, setup_name = None\<rparr>] persisted = (Inl TypeError, persisted)
   \<and> loadWallet exampleEnv \<lparr>setup_all = True, setup_name = None\<rparr> [] persisted
     = (Inl TypeError, persisted)
   \<and> loadWallet exampleEnv \<lparr>setup_all = False, setup_name = None\<rparr>
     [\<lparr>setup_all = False, setup_name = Some ''bob''\<rparr>] persisted
     = (Inl (Error ''cant find wallet data''), persisted)"
  by (simp add: loadWallet_def setupWallet_def load_def getWalletList_def getWallet_def
      persisted_def)

text \<open>
  The same for every store without a record \<open>wallet-undefined\<close> and with a name in
  the index: loading all fails and changes nothing.
\<close>

lemma loadEach_without_record:
  "getWallet None st = None \<Longrightarrow> l \<noteq> [] \<Longrightarrow> loadEach E l st = (Some TypeError, st)"
proof (induction l)
  case Nil
  then show ?case by simp
next
  case (Cons n l)
  show ?case
  proof (cases l)
    case Nil
    with Cons.prems show ?thesis by (simp add: load_def)
  next
    case (Cons m l')
    with Cons.IH Cons.prems show ?thesis by (simp add: load_def)
  qed
qed

lemma loadWallet_all_fails:
  assumes "getWallet None st = None" and "getWalletList st \<noteq> []"
  shows "loadWallet E opts (\<lparr>setup_all = True, setup_name = n\<rparr> # ps) st = (Inl TypeError, st)"
  using assms loadEach_without_record[of st "getWalletList st" E]
  by (simp add: loadWallet_def setupWallet_def)

subsection \<open>Event handlers\<close>

lemma eventHandler_swallows: "runHandler notify (EventHandler c k) args = None"
  by (simp split: option.split)

text \<open>
  C4. Claim: every forwarding handler, the bootstrap handlers included, swallows an
  error of the caller's notification channel. \<open>eventHandler\<close> of \<open>_subscribe\<close>
  does (\<open>eventHandler_swallows\<close>). The bootstrap handler does not: the handler
  that \<open>_subBootstrapEvents\<close> attaches to \<open>btc\<close> for \<open>new-tx\<close> hands the channel's
  error on to the emitter.
\<close>

theorem bootstrap_handler_propagates:
  "snd (subBootstrapEvents [''new-tx''] aliceWallet balanceReq materialized)
     = materialized\<lparr>trace := [On (ResourceEmitter ''alice'' ''pay'' ''btc'') (DStr ''new-tx'')
                                (BootstrapHandler (Some 0) ''alice:pay-btc:new-tx'')]\<rparr>
   \<and> runHandler brokenNotify (BootstrapHandler (Some 0) ''alice:pay-btc:new-tx'') [DStr ''tx'']
     = Some (Error ''channel closed'')"
  by (simp add: subBootstrapEvents_def example_defs callNotify_def lookup_def)

subsection \<open>Tokens\<close>

lemma addToken_succeeds_iff_registered:
  "(fst (addToken t a) = None) = has (tokens a) (token_name t)"
  by (simp add: addToken_def)

text \<open>
  C6. Claim: \<open>addToken\<close> fails for a token name that is already registered and adds
  a token with a fresh name. The test in the code is negated: on an empty map
  adding \<open>USDT\<close> fails with \<open>Token already exists USDT\<close>, and with \<open>USDT\<close>
  registered a second \<open>USDT\<close> replaces the first without an error.
\<close>

theorem addToken_fresh_fails_duplicate_replaces:
  "addToken (usdt 1) \<lparr>assetName = ''eth'', tokens = []\<rparr>
     = (Some (Error ''Token already exists USDT''), \<lparr>assetName = ''eth'', tokens = []\<rparr>)
   \<and> addToken (usdt 2) \<lparr>assetName = ''eth'', tokens = [(''USDT'', usdt 1)]\<rparr>
     = (None, \<lparr>assetName = ''eth'', tokens = [(''USDT'', usdt 2)]\<rparr>)"
  by (simp add: addToken_def has_def usdt_def)

subsection \<open>The dispatcher\<close>

text \<open>
  C1. Claim: on a materialized wallet whose facade exposes the requested namespace,
  resource and method, \<open>callWallet\<close> invokes that method with the parameters (an
  array spread, anything else passed whole) and returns what the method gives, value
  or failure. As stated this fails for the method names \<open>on\<close> and \<open>off\<close>, which
  the dispatcher takes as subscription control: \<open>btc\<close> has a method \<open>on\<close>, yet the
  request for it returns the subscription key, stores a handler, and calls \<open>on\<close>
  with the event name and that handler instead of the parameters.
\<close>

theorem callWallet_method_on_subscribes:
  "get_prop (get_prop (get_prop (facade aliceWallet) ''pay'') ''btc'') ''on'' = Func 2 []
   \<and> invoke exampleEnv 2 [DStr ''new-tx''] = Inr (DStr ''balance'')
   \<and> callWallet exampleEnv onMethodReq materialized
     = (Inr (DStr ''alice:pay-btc:new-tx''),
        materialized
          \<lparr>subs := [(''alice:pay-btc:new-tx'', EventHandler (Some 0) ''alice:pay-btc:new-tx'')],
           trace := [On (ResourceEmitter ''alice'' ''pay'' ''btc'') (DStr ''new-tx'')
                       (EventHandler (Some 0) ''alice:pay-btc:new-tx'')]\<rparr>)"
  by (simp add: callWallet_def dispatch_def asResult_def subscribe_def getEventName_def
      resourceKey_def resourceOf_def resourceEmitter_def lookup_def MAX_SUB_SIZE_def
      Let_def example_defs)

text \<open>
  C1, amended. On a materialized wallet, for a namespace other than \<open>on\<close> and
  \<open>off\<close>, a named (non-empty) resource and a method name other than \<open>on\<close> and
  \<open>off\<close> that the facade exposes as a function \<open>f\<close>: \<open>callWallet\<close> calls \<open>f\<close> once,
  with the elements of the parameter array or with the single parameter value, and
  returns exactly what \<open>f\<close> gives.
\<close>

theorem callWallet_invokes_method:
  assumes "map_of (wallets st) (req_name req) = Some w"
    and "is_truthy (get_prop (facade w) (req_namespace req))"
    and "req_namespace req \<noteq> ''on''" and "req_namespace req \<noteq> ''off''"
    and "req_resource req = Some r" and "r \<noteq> []"
    and "is_truthy (get_prop (get_prop (facade w) (req_namespace req)) r)"
    and "req_method req = Some m" and "m \<noteq> ''on''" and "m \<noteq> ''off''"
    and "get_prop (get_prop (get_prop (facade w) (req_namespace req)) r) m = Func f ps"
  shows "callWallet E req st =
           (invoke E f (case req_params req of DArr xs \<Rightarrow> xs | p \<Rightarrow> [p]),
            st\<lparr>trace := trace st @ [Invoke f (case req_params req of DArr xs \<Rightarrow> xs | p \<Rightarrow> [p])]\<rparr>)"
proof -
  have "dispatch E req w st =
           (invoke E f (case req_params req of DArr xs \<Rightarrow> xs | p \<Rightarrow> [p]),
            st\<lparr>trace := trace st @ [Invoke f (case req_params req of DArr xs \<Rightarrow> xs | p \<Rightarrow> [p])]\<rparr>)"
    using assms(2-) by (simp add: dispatch_def callFn_def split: jsdata.split)
  with assms(1) show ?thesis by (simp add: callWallet_def)
qed

theorem callWallet_invokes_method_witness:
  "callWallet exampleEnv balanceReq materialized
     = (Inr (DStr ''balance''), materialized\<lparr>trace := [Invoke 1 []]\<rparr>)
   \<and> callWallet exampleEnv structuredReq materialized
     = (Inr (DStr ''balance''),
        materialized\<lparr>trace := [Invoke 1 [DObj [(''confirmed'', DBool True)]]]\<rparr>)"
proof -
  have positional: "callWallet exampleEnv balanceReq materialized =
      (invoke exampleEnv 1 (case req_params balanceReq of DArr xs \<Rightarrow> xs | p \<Rightarrow> [p]),
       materialized\<lparr>trace := trace materialized
          @ [Invoke 1 (case req_params balanceReq of DArr xs \<Rightarrow> xs | p \<Rightarrow> [p])]\<rparr>)"
    by (rule callWallet_invokes_method
          [where w = aliceWallet and r = "''btc''" and m = "''getBalance''" and ps = "[]"])
       (simp_all add: example_defs lookup_def)
  have whole: "callWallet exampleEnv structuredReq materialized =
      (invoke exampleEnv 1 (case req_params structuredReq of DArr xs \<Rightarrow> xs | p \<Rightarrow> [p]),
       materialized\<lparr>trace := trace materialized
          @ [Invoke 1 (case req_params structuredReq of DArr xs \<Rightarrow> xs | p \<Rightarrow> [p])]\<rparr>)"
    by (rule callWallet_invokes_method
          [where w = aliceWallet and r = "''btc''" and m = "''getBalance''" and ps = "[]"])
       (simp_all add: example_defs lookup_def)
  show ?thesis using positional whole by (simp add: example_defs)
qed

text \<open>
  C7. Claim: on a materialized wallet, a request for a namespace the facade exposes
  and a resource that is not in it fails with InvalidResource, and a request for an
  existing resource and a method that is not on it fails with InvalidMethod, both
  without a call. As stated the second part fails for the method name \<open>on\<close>:
  \<open>seed.mnemonic\<close> exists and has no member \<open>on\<close>, and the request is taken as a
  subscription, which ends in a \<open>TypeError\<close> when \<open>on\<close> is called.
\<close>

theorem callWallet_missing_on_is_TypeError:
  "is_truthy (get_prop (get_prop (facade aliceWallet) ''seed'') ''mnemonic'')
   \<and> get_prop (get_prop (get_prop (facade aliceWallet) ''seed'') ''mnemonic'') ''on'' = Falsy
   \<and> callWallet exampleEnv mnemonicOnReq materialized = (Inl TypeError, materialized)"
  by (simp add: callWallet_def dispatch_def asResult_def subscribe_def getEventName_def
      resourceKey_def resourceOf_def lookup_def MAX_SUB_SIZE_def Let_def example_defs)

text \<open>
  C7, amended. On a materialized wallet, for a namespace other than \<open>on\<close> and
  \<open>off\<close> that the facade exposes and a named (non-empty) resource: if the resource
  is not in the namespace the call fails with \<open>wallet doesnt have this resource\<close>;
  if it is, and the method name is neither \<open>on\<close> nor \<open>off\<close> and not a member of
  the resource, the call fails with
  \<open>wallet resource does not have that method name\<close>. In both cases the state,
  the log of calls included, is unchanged.
\<close>

theorem callWallet_invalid_resource_or_method:
  assumes "map_of (wallets st) (req_name req) = Some w"
    and "is_truthy (get_prop (facade w) (req_namespace req))"
    and "req_namespace req \<noteq> ''on''" and "req_namespace req \<noteq> ''off''"
    and "req_resource req = Some r" and "r \<noteq> []"
  shows "(get_prop (get_prop (facade w) (req_namespace req)) r = Falsy \<longrightarrow>
            callWallet E req st = (Inl (Error ''wallet doesnt have this resource''), st))
       \<and> (is_truthy (get_prop (get_prop (facade w) (req_namespace req)) r)
            \<and> req_method req \<noteq> Some ''on'' \<and> req_method req \<noteq> Some ''off''
            \<and> get_prop (get_prop (get_prop (facade w) (req_namespace req)) r)
                 (keyOf (req_method req)) = Falsy
          \<longrightarrow> callWallet E req st
                = (Inl (Error ''wallet resource does not have that method name''), st))"
  using assms by (simp add: callWallet_def dispatch_def)

theorem callWallet_invalid_resource_or_method_witness:
  "callWallet exampleEnv ethReq materialized
     = (Inl (Error ''wallet doesnt have this resource''), materialized)
   \<and> callWallet exampleEnv priceReq materialized
     = (Inl (Error ''wallet resource does not have that method name''), materialized)"
proof -
  have eth: "get_prop (get_prop (facade aliceWallet) (req_namespace ethReq)) ''eth'' = Falsy"
    by (simp add: example_defs lookup_def)
  have btc: "is_truthy (get_prop (get_prop (facade aliceWallet) (req_namespace priceReq)) ''btc'')
      \<and> req_method priceReq \<noteq> Some ''on'' \<and> req_method priceReq \<noteq> Some ''off''
      \<and> get_prop (get_prop (get_prop (facade aliceWallet) (req_namespace priceReq)) ''btc'')
           (keyOf (req_method priceReq)) = Falsy"
    by (simp add: example_defs lookup_def)
  have "callWallet exampleEnv ethReq materialized
     = (Inl (Error ''wallet doesnt have this resource''), materialized)"
    using eth callWallet_invalid_resource_or_method
        [where st = materialized and req = ethReq and w = aliceWallet and r = "''eth''"
           and E = exampleEnv]
    by (simp add: example_defs lookup_def)
  moreover have "callWallet exampleEnv priceReq materialized
     = (Inl (Error ''wallet resource does not have that method name''), materialized)"
    using btc callWallet_invalid_resource_or_method
        [where st = materialized and req = priceReq and w = aliceWallet and r = "''btc''"
           and E = exampleEnv]
    by (simp add: example_defs lookup_def)
  ultimately show ?thesis by simp
qed

subsection \<open>Subscriptions\<close>

lemma update_fresh_append:
  "k \<notin> fst ` set al \<Longrightarrow> AList.update k v al = al @ [(k, v)]"
  by (induction al) auto

lemma delete_update_fresh:
  "map_of al k = None \<Longrightarrow> AList.delete k (AList.update k v al) = al"
  by (simp add: delete_update_same map_of_eq_None_iff)

lemma subscribe_registers:
  assumes "registration (req, w, opts) = Some (k, h, e)" and "length (subs st) \<noteq> MAX_SUB_SIZE"
  shows "subscribe req w opts st
         = (Inr k, st\<lparr>subs := AList.update k h (subs st), trace := trace st @ [e]\<rparr>)"
  using assms
  by (auto simp: registration_def subscribe_def Let_def
      split: sum.splits option.splits if_splits)

lemma subscribe_at_capacity:
  assumes "getEventName req = Inr ev" and "length (subs st) = MAX_SUB_SIZE"
  shows "subscribe req w opts st = (Inl (Error ''memory leak: too many subscriptions''), st)"
  using assms by (simp add: subscribe_def)

lemma subscribe_without_event:
  assumes "getEventName req = Inl e"
  shows "subscribe req w opts st = (Inl e, st)"
  using assms by (simp add: subscribe_def)

text \<open>
  An event name without a string form (an object with an own member \<open>toString\<close>)
  makes the key template throw: nothing is registered.
\<close>

lemma subscribe_event_without_string_form:
  "subscribe (onReq\<lparr>req_params := DArr [DObj [(''toString'', DStr ''x'')]]\<rparr>) aliceWallet
     ''wallet'' materialized = (Inl TypeError, materialized)
   \<and> registration (onReq\<lparr>req_params := DArr [DObj [(''toString'', DStr ''x'')]]\<rparr>,
        aliceWallet, ''wallet'') = None"
  by (simp add: subscribe_def registration_def getEventName_def walletKey_def MAX_SUB_SIZE_def
      example_defs)

text \<open>
  While there is room for all of them, calls with distinct keys that are not in the
  map yet all succeed; each appends its entry to the map and its \<open>on\<close> to the log.
\<close>

lemma subscribeAll_below_capacity:
  "map registration calls = map Some regs \<Longrightarrow> distinct (map fst regs) \<Longrightarrow>
   set (map fst regs) \<inter> fst ` set (subs st) = {} \<Longrightarrow>
   length (subs st) + length calls \<le> MAX_SUB_SIZE \<Longrightarrow>
   subscribeAll calls st
   = (map (\<lambda>r. Inr (fst r)) regs,
      st\<lparr>subs := subs st @ map (\<lambda>r. (fst r, fst (snd r))) regs,
         trace := trace st @ map (\<lambda>r. snd (snd r)) regs\<rparr>)"
proof (induction calls arbitrary: regs st)
  case Nil
  then show ?case by simp
next
  case (Cons c calls)
  obtain req w opts where c: "c = (req, w, opts)" by (cases c)
  from Cons.prems(1) obtain r regs' where regs: "regs = r # regs'"
    and r: "registration c = Some r" and rest: "map registration calls = map Some regs'"
    by (cases regs) auto
  obtain k h e where rkhe: "r = (k, h, e)" by (cases r)
  let ?st1 = "st\<lparr>subs := AList.update k h (subs st), trace := trace st @ [e]\<rparr>"
  have room: "length (subs st) \<noteq> MAX_SUB_SIZE" using Cons.prems(4) by simp
  have step: "subscribe req w opts st = (Inr k, ?st1)"
    using subscribe_registers[OF r[unfolded c rkhe] room] .
  have kfresh: "k \<notin> fst ` set (subs st)" using Cons.prems(3) regs rkhe by auto
  have subs1: "subs ?st1 = subs st @ [(k, h)]"
    using kfresh by (simp add: update_fresh_append)
  have d: "distinct (map fst regs')" and knot: "k \<notin> set (map fst regs')"
    using Cons.prems(2) regs rkhe by auto
  have disj: "set (map fst regs') \<inter> fst ` set (subs ?st1) = {}"
    using Cons.prems(3) regs knot subs1 by auto
  have cap: "length (subs ?st1) + length calls \<le> MAX_SUB_SIZE"
    using Cons.prems(4) subs1 by simp
  have "subscribeAll calls ?st1
        = (map (\<lambda>r. Inr (fst r)) regs',
           ?st1\<lparr>subs := subs ?st1 @ map (\<lambda>r. (fst r, fst (snd r))) regs',
                trace := trace ?st1 @ map (\<lambda>r. snd (snd r)) regs'\<rparr>)"
    by (rule Cons.IH[OF rest d disj cap])
  then show ?case using step subs1 regs rkhe c by simp
qed

lemma manyCalls_registration: "map registration manyCalls = map Some manyRegs"
  by (simp add: manyCalls_def manyRegs_def registration_def getEventName_def eventReq_def
      onReq_def aliceWallet_def aliceFacade_def lookup_def walletKey_def)

lemma manyRegs_distinct: "distinct (map fst manyRegs)"
  by (auto simp: manyRegs_def distinct_map inj_on_def comp_def dest: arg_cong[where f=length])

text \<open>
  C8. Claim: starting from an empty subscription map, subscribing as many distinct
  keys as the configured maximum succeeds for every one of them, and the next
  subscribe call fails with SubscriptionLimitExceeded without registering a
  handler. As stated the last part fails for a next call that names no event:
  \<open>_getEventName\<close> runs before the size test, so with the map filled from empty
  by \<open>MAX_SUB_SIZE\<close> calls, a call with the parameters \<open>[]\<close> fails with
  \<open>event name is missing\<close>.
\<close>

theorem subscribe_at_capacity_without_event:
  "fst (subscribeAll manyCalls materialized) = map (\<lambda>r. Inr (fst r)) manyRegs
   \<and> length (subs (snd (subscribeAll manyCalls materialized))) = MAX_SUB_SIZE
   \<and> subscribe noEventReq aliceWallet ''wallet'' (snd (subscribeAll manyCalls materialized))
       = (Inl (Error ''event name is missing''), snd (subscribeAll manyCalls materialized))"
proof -
  have e: "subs materialized = []" by (simp add: materialized_def persisted_def)
  have n: "length manyCalls = MAX_SUB_SIZE" by (simp add: manyCalls_def)
  have m: "length manyRegs = MAX_SUB_SIZE" by (simp add: manyRegs_def)
  have x: "getEventName noEventReq = Inl (Error ''event name is missing'')"
    by (simp add: getEventName_def noEventReq_def onReq_def)
  have "subscribeAll manyCalls materialized
        = (map (\<lambda>r. Inr (fst r)) manyRegs,
           materialized\<lparr>subs := subs materialized @ map (\<lambda>r. (fst r, fst (snd r))) manyRegs,
                         trace := trace materialized @ map (\<lambda>r. snd (snd r)) manyRegs\<rparr>)"
    using subscribeAll_below_capacity[OF manyCalls_registration manyRegs_distinct, of materialized]
      e n by simp
  then show ?thesis using subscribe_without_event[OF x] e m by simp
qed

text \<open>
  C8, amended. Starting from an empty subscription map, \<open>MAX_SUB_SIZE\<close> well-formed
  subscribe calls with distinct keys succeed, every one returning its key; the map
  then holds exactly their handlers under their keys, in order, and every handler
  was attached with \<open>on\<close>. The next subscribe call that names an event, whatever
  its key and scope, fails with \<open>memory leak: too many subscriptions\<close> and leaves
  the state as it was: no entry is added and no handler is attached.
  (\<open>registration\<close> gives what a well-formed call registers.)
\<close>

theorem subscribe_capacity:
  assumes "subs st = []"
    and "length calls = MAX_SUB_SIZE"
    and "map registration calls = map Some regs"
    and "distinct (map fst regs)"
    and "getEventName req = Inr ev"
  shows "subscribeAll calls st
         = (map (\<lambda>r. Inr (fst r)) regs,
            st\<lparr>subs := map (\<lambda>r. (fst r, fst (snd r))) regs,
               trace := trace st @ map (\<lambda>r. snd (snd r)) regs\<rparr>)
       \<and> length (subs (snd (subscribeAll calls st))) = MAX_SUB_SIZE
       \<and> subscribe req w opts (snd (subscribeAll calls st))
           = (Inl (Error ''memory leak: too many subscriptions''), snd (subscribeAll calls st))"
proof -
  have len: "length regs = length calls"
    using arg_cong[OF assms(3), of length] by simp
  have filled: "subscribeAll calls st
         = (map (\<lambda>r. Inr (fst r)) regs,
            st\<lparr>subs := map (\<lambda>r. (fst r, fst (snd r))) regs,
               trace := trace st @ map (\<lambda>r. snd (snd r)) regs\<rparr>)"
    using subscribeAll_below_capacity[OF assms(3) assms(4), of st] assms(1,2) by simp
  then have full: "length (subs (snd (subscribeAll calls st))) = MAX_SUB_SIZE"
    using len assms(2) by simp
  show ?thesis using filled full subscribe_at_capacity[OF assms(5) full] by simp
qed

theorem subscribe_capacity_witness:
  "length manyCalls = MAX_SUB_SIZE
   \<and> subscribeAll manyCalls materialized
       = (map (\<lambda>r. Inr (fst r)) manyRegs,
          materialized\<lparr>subs := map (\<lambda>r. (fst r, fst (snd r))) manyRegs,
                        trace := trace materialized @ map (\<lambda>r. snd (snd r)) manyRegs\<rparr>)
   \<and> subscribe (eventReq 0) aliceWallet ''wallet'' (snd (subscribeAll manyCalls materialized))
       = (Inl (Error ''memory leak: too many subscriptions''),
          snd (subscribeAll manyCalls materialized))"
proof -
  have e: "subs materialized = []" by (simp add: materialized_def persisted_def)
  have n: "length manyCalls = MAX_SUB_SIZE" by (simp add: manyCalls_def)
  have x: "getEventName (eventReq 0) = Inr (DStr ''e'')"
    by (simp add: getEventName_def eventReq_def onReq_def)
  show ?thesis
    using subscribe_capacity[OF e n manyCalls_registration manyRegs_distinct x,
        where w = aliceWallet and opts = "''wallet''"] n
    by blast
qed

text \<open>
  C9. Claim: for every wallet name \<open>n\<close> and event name \<open>e\<close>, a wallet-level
  subscribe returns the key \<open>n:e\<close> and stores a handler under it, a following
  wallet-level unsubscribe removes the entry and restores the map to its prior
  state, and an unsubscribe without a registered handler fails with NotFound. As
  stated the round trip fails when the key is already in the map: the subscribe
  replaces the entry of the earlier caller and the unsubscribe removes it, so the
  map ends empty where it held an entry before.
\<close>

theorem resubscribe_unsubscribe_drops_entry:
  "subs subscribed = [(''alice:new-tx'', EventHandler (Some 7) ''alice:new-tx'')]
   \<and> fst (callWallet exampleEnv onReq subscribed) = Inr (DStr ''alice:new-tx'')
   \<and> fst (callWallet exampleEnv offReq (snd (callWallet exampleEnv onReq subscribed)))
       = Inr (DStr ''alice:new-tx'')
   \<and> subs (snd (callWallet exampleEnv offReq (snd (callWallet exampleEnv onReq subscribed)))) = []"
  by (simp add: callWallet_def dispatch_def asResult_def subscribe_def unsubscribe_def
      getEventName_def getEventHandler_def walletKey_def lookup_def MAX_SUB_SIZE_def Let_def
      example_defs)

text \<open>
  C9, amended. Let \<open>n\<close> be a materialized wallet whose facade has \<open>on\<close> and \<open>off\<close>,
  \<open>e\<close> a non-empty event name, the map below its capacity and without an entry
  under \<open>n:e\<close>. Then the wallet-level subscribe (namespace \<open>on\<close>, parameters
  \<open>[e]\<close>) returns \<open>n:e\<close> and stores its handler under that key; the wallet-level
  unsubscribe that follows (namespace \<open>off\<close>, parameters \<open>[e]\<close>) returns the key
  and leaves the map as it was before the subscribe; and the same unsubscribe
  without the subscribe fails with \<open>handler does not exist n:e\<close> and changes
  nothing.
\<close>

theorem subscribe_unsubscribe_roundtrip:
  assumes mat: "map_of (wallets st) n = Some w"
    and em: "callable (get_prop (facade w) ''on'') = Some f"
      "callable (get_prop (facade w) ''off'') = Some g"
    and e: "e \<noteq> []"
    and room: "length (subs st) \<noteq> MAX_SUB_SIZE"
    and fresh: "map_of (subs st) (n @ '':'' @ e) = None"
    and st1: "st1 = snd (callWallet E
        \<lparr>req_name = n, req_namespace = ''on'', req_resource = r, req_method = m,
         req_params = DArr [DStr e], req_notify = c\<rparr> st)"
  shows "fst (callWallet E
        \<lparr>req_name = n, req_namespace = ''on'', req_resource = r, req_method = m,
         req_params = DArr [DStr e], req_notify = c\<rparr> st) = Inr (DStr (n @ '':'' @ e))
      \<and> map_of (subs st1) (n @ '':'' @ e) = Some (EventHandler c (n @ '':'' @ e))
      \<and> fst (callWallet E
        \<lparr>req_name = n, req_namespace = ''off'', req_resource = r', req_method = m',
         req_params = DArr [DStr e], req_notify = c'\<rparr> st1) = Inr (DStr (n @ '':'' @ e))
      \<and> subs (snd (callWallet E
        \<lparr>req_name = n, req_namespace = ''off'', req_resource = r', req_method = m',
         req_params = DArr [DStr e], req_notify = c'\<rparr> st1)) = subs st
      \<and> callWallet E
        \<lparr>req_name = n, req_namespace = ''off'', req_resource = r', req_method = m',
         req_params = DArr [DStr e], req_notify = c'\<rparr> st
        = (Inl (Error (''handler does not exist '' @ n @ '':'' @ e)), st)"
proof -
  let ?key = "n @ '':'' @ e"
  let ?on = "\<lparr>req_name = n, req_namespace = ''on'', req_resource = r, req_method = m,
         req_params = DArr [DStr e], req_notify = c\<rparr>"
  let ?off = "\<lparr>req_name = n, req_namespace = ''off'', req_resource = r', req_method = m',
         req_params = DArr [DStr e], req_notify = c'\<rparr>"
  let ?h = "EventHandler c ?key"
  have on_t: "is_truthy (get_prop (facade w) ''on'')" "is_truthy (get_prop (facade w) ''off'')"
    using em by (cases "get_prop (facade w) ''on''"; cases "get_prop (facade w) ''off''"; simp)+
  have sub: "subscribe ?on w ''wallet'' st =
      (Inr ?key, st\<lparr>subs := AList.update ?key ?h (subs st),
                    trace := trace st @ [On (WalletEmitter (walletName w)) (DStr e) ?h]\<rparr>)"
    using em e room by (simp add: subscribe_def getEventName_def walletKey_def Let_def)
  have call_on: "callWallet E ?on st =
      (Inr (DStr ?key), st\<lparr>subs := AList.update ?key ?h (subs st),
                    trace := trace st @ [On (WalletEmitter (walletName w)) (DStr e) ?h]\<rparr>)"
    using mat on_t sub by (simp add: callWallet_def dispatch_def asResult_def)
  then have st1': "st1 = st\<lparr>subs := AList.update ?key ?h (subs st),
                    trace := trace st @ [On (WalletEmitter (walletName w)) (DStr e) ?h]\<rparr>"
    using st1 by simp
  have stored: "map_of (subs st1) ?key = Some ?h" using st1' by (simp add: update_conv')
  have unsub: "unsubscribe ?off w ''wallet'' st1 =
      (Inr ?key, st1\<lparr>subs := AList.delete ?key (subs st1),
                    trace := trace st1 @ [Off (WalletEmitter (walletName w)) (DStr e) ?h]\<rparr>)"
    using em e stored
    by (simp add: unsubscribe_def getEventName_def walletKey_def getEventHandler_def Let_def)
  have mat1: "map_of (wallets st1) n = Some w" using mat st1' by simp
  have call_off: "callWallet E ?off st1 =
      (Inr (DStr ?key), st1\<lparr>subs := AList.delete ?key (subs st1),
                    trace := trace st1 @ [Off (WalletEmitter (walletName w)) (DStr e) ?h]\<rparr>)"
    using mat1 on_t unsub by (simp add: callWallet_def dispatch_def asResult_def)
  have restored: "AList.delete ?key (subs st1) = subs st"
    using st1' fresh by (simp add: delete_update_fresh)
  have missing: "unsubscribe ?off w ''wallet'' st
      = (Inl (Error (''handler does not exist '' @ ?key)), st)"
    using e fresh
    by (simp add: unsubscribe_def getEventName_def walletKey_def getEventHandler_def Let_def)
  have call_missing: "callWallet E ?off st = (Inl (Error (''handler does not exist '' @ ?key)), st)"
    using mat on_t missing by (simp add: callWallet_def dispatch_def asResult_def)
  show ?thesis using call_on stored call_off restored call_missing by simp
qed

theorem subscribe_unsubscribe_roundtrip_witness:
  "fst (callWallet exampleEnv onReq materialized) = Inr (DStr ''alice:new-tx'')
   \<and> map_of (subs (snd (callWallet exampleEnv onReq materialized))) ''alice:new-tx''
       = Some (EventHandler (Some 0) ''alice:new-tx'')
   \<and> fst (callWallet exampleEnv offReq (snd (callWallet exampleEnv onReq materialized)))
       = Inr (DStr ''alice:new-tx'')
   \<and> subs (snd (callWallet exampleEnv offReq (snd (callWallet exampleEnv onReq materialized))))
       = subs materialized
   \<and> callWallet exampleEnv offReq materialized
       = (Inl (Error ''handler does not exist alice:new-tx''), materialized)"
proof -
  have mat: "map_of (wallets materialized) ''alice'' = Some aliceWallet"
    by (simp add: example_defs)
  have em: "callable (get_prop (facade aliceWallet) ''on'') = Some 4"
    "callable (get_prop (facade aliceWallet) ''off'') = Some 5"
    by (simp_all add: example_defs lookup_def)
  have e: "''new-tx'' \<noteq> []" by simp
  have room: "length (subs materialized) \<noteq> MAX_SUB_SIZE"
    by (simp add: example_defs MAX_SUB_SIZE_def)
  have fresh: "map_of (subs materialized) (''alice'' @ '':'' @ ''new-tx'') = None"
    by (simp add: example_defs)
  have on_eq: "onReq = \<lparr>req_name = ''alice'', req_namespace = ''on'', req_resource = None,
      req_method = None, req_params = DArr [DStr ''new-tx''], req_notify = Some 0\<rparr>"
    and off_eq: "offReq = \<lparr>req_name = ''alice'', req_namespace = ''off'', req_resource = None,
      req_method = None, req_params = DArr [DStr ''new-tx''], req_notify = Some 0\<rparr>"
    by (simp_all add: example_defs)
  have st1: "snd (callWallet exampleEnv onReq materialized) = snd (callWallet exampleEnv
      \<lparr>req_name = ''alice'', req_namespace = ''on'', req_resource = None,
       req_method = None, req_params = DArr [DStr ''new-tx''], req_notify = Some 0\<rparr> materialized)"
    by (simp only: on_eq)
  show ?thesis
    using subscribe_unsubscribe_roundtrip
        [OF mat em e room fresh st1, where r' = None and m' = None and c' = "Some 0"]
    by (simp only: on_eq [symmetric] off_eq [symmetric]) simp
qed

subsection \<open>Bootstrap subscriptions\<close>









end
